theory Spec2Isabelle
  imports Complex_Main
begin

section \<open>Types the header uses but does not declare\<close>

text \<open>
  \<^verbatim>\<open>LSTMLayerNode.h\<close> refers to \<^verbatim>\<open>utilities::DimensionOrder\<close>,
  \<^verbatim>\<open>model::PortMemoryLayout\<close>, \<^verbatim>\<open>utilities::LogicException\<close> and
  \<^verbatim>\<open>utilities::LogicExceptionErrors\<close>, all declared in other headers. They are kept as
  small as the header's own code needs them.
\<close>

text \<open>A dimension order is a vector of dimension indices, compared componentwise by \<^verbatim>\<open>==\<close>.\<close>

type_synonym DimensionOrder = "int list"

text \<open>
  Modelled from the spec: \<^verbatim>\<open>model::PortMemoryLayout\<close> is not declared in the header; the
  data model describes a memory layout as a shape together with a dimension order.
\<close>

record PortMemoryLayout =
  shape :: "int list"
  dimensionOrder :: DimensionOrder

definition GetLogicalDimensionOrder :: "PortMemoryLayout \<Rightarrow> DimensionOrder" where
  "GetLogicalDimensionOrder layout = dimensionOrder layout"

text \<open>
  Modelled from the spec: the exception classes are not declared in the header. The header
  names the class \<^verbatim>\<open>LogicException\<close> and the enumerator \<^verbatim>\<open>notImplemented\<close>; the
  error-handling section sets this "unsupported operation" kind apart from construction-time
  consistency errors and from generic faults, which are the other constructors here.
\<close>

datatype LogicExceptionErrors = notImplemented | otherLogicError

datatype Exception =
    LogicException LogicExceptionErrors
  | ConsistencyError
  | GenericFault

text \<open>
  A member function that may throw or change the object it is called on yields the value
  it returns, or the exception it throws, paired with the object as the call leaves it.
\<close>

type_synonym ('r, 'n) outcome = "(Exception + 'r) \<times> 'n"

section \<open>The adapter \<^verbatim>\<open>LSTMLayerNode\<close>\<close>

text \<open>
  The adapter holds the wiring of its data input and its reset input and the wrapped layer.
  Ports and the layer type belong to other headers and stay type parameters.
\<close>

record ('port, 'layer) LSTMLayerNode =
  input :: 'port
  reset :: 'port
  layer :: 'layer

text \<open>
  \<^verbatim>\<open>bool IsCompilable(const model::MapCompiler* compiler) const override { return false; }\<close>
  The compiler is passed by pointer, which may be null.
\<close>

definition IsCompilable :: "('port, 'layer) LSTMLayerNode \<Rightarrow> 'compiler option \<Rightarrow> bool" where
  "IsCompilable node compiler = False"

section \<open>The primitive node \<^verbatim>\<open>LSTMNode\<close>\<close>

text \<open>
  The members the header declares (lines 191 to 214). \<^verbatim>\<open>ValueType\<close> is the template
  parameter. A weight or bias port is represented by the data it delivers: one row of
  weights per hidden unit. The data input, the reset trigger and the output change with
  every evaluation and are the arguments and the result of the evaluation step below.
\<close>

record 'v LSTMNode =
  inputWeights :: "'v list list"
  forgetMeWeights :: "'v list list"
  candidateWeights :: "'v list list"
  outputWeights :: "'v list list"
  inputBias :: "'v list"
  forgetMeBias :: "'v list"
  candidateBias :: "'v list"
  outputBias :: "'v list"
  inputMemoryLayout :: PortMemoryLayout
  outputMemoryLayout :: PortMemoryLayout
  activation :: "'v \<Rightarrow> 'v"
  recurrentActivation :: "'v \<Rightarrow> 'v"

text \<open>
  The functions of the header are defined on \<open>('v, 'z) LSTMNode_scheme\<close>: a node with
  these members and any further ones (\<open>'z\<close>), such as the recurrent state of section
  \<open>The recurrent state\<close>.
\<close>

definition GetInputMemoryLayout :: "('v, 'z) LSTMNode_scheme \<Rightarrow> PortMemoryLayout" where
  "GetInputMemoryLayout node = inputMemoryLayout node"

text \<open>
  \<^verbatim>\<open>return GetInputMemoryLayout().GetLogicalDimensionOrder() == order;\<close>
  The method is const and has no throw.
\<close>

definition CanAcceptInputLayout ::
  "('v, 'z) LSTMNode_scheme \<Rightarrow> DimensionOrder \<Rightarrow> (bool, ('v, 'z) LSTMNode_scheme) outcome" where
  "CanAcceptInputLayout node order =
     (Inr (GetLogicalDimensionOrder (GetInputMemoryLayout node) = order), node)"

text \<open>\<^verbatim>\<open>bool HasState() const override { return true; }\<close>\<close>

definition HasState :: "('v, 'z) LSTMNode_scheme \<Rightarrow> bool" where
  "HasState node = True"

text \<open>
  \<^verbatim>\<open>throw utilities::LogicException(utilities::LogicExceptionErrors::notImplemented);\<close>
  is the whole body of both archive methods: the throw is the first statement, so the node
  and the archiver are as they were when the exception leaves the call.
\<close>

definition WriteToArchive ::
  "('v, 'z) LSTMNode_scheme \<Rightarrow> 'archiver \<Rightarrow> (unit, ('v, 'z) LSTMNode_scheme \<times> 'archiver) outcome" where
  "WriteToArchive node archiver = (Inl (LogicException notImplemented), (node, archiver))"

definition ReadFromArchive ::
  "('v, 'z) LSTMNode_scheme \<Rightarrow> 'archiver \<Rightarrow> (unit, ('v, 'z) LSTMNode_scheme \<times> 'archiver) outcome" where
  "ReadFromArchive node archiver = (Inl (LogicException notImplemented), (node, archiver))"

section \<open>The recurrent state and the evaluation step\<close>

text \<open>
  The header declares \<^verbatim>\<open>Reset\<close>, \<^verbatim>\<open>Compute\<close> and \<^verbatim>\<open>Compile\<close> and gives no body
  for them, and none of the members it declares holds the hidden vector, the cell vector or
  the previous reset value. This section follows the written contract of the node
  (data model and the contracts "Reset" and "Evaluate one step") for all of them.
  Arithmetic is that of the value type \<open>'v\<close>; the concrete scenario is evaluated over the
  real numbers, so rounding of \<^verbatim>\<open>float\<close> or \<^verbatim>\<open>double\<close> is outside the model.
\<close>

text \<open>
  Modelled from the spec: the state members of \<^verbatim>\<open>LSTMNode\<close> are missing from the header.
  Cell State is a hidden vector and a cell vector of the same length (the hidden size),
  owned by the node; Reset Signal keeps the previous value of the reset line for edge
  detection.
\<close>

record 'v LSTMState = "'v LSTMNode" +
  hiddenState :: "'v list"
  cellState :: "'v list"
  lastResetValue :: int

text \<open>
  Modelled from the spec: the body of \<^verbatim>\<open>LSTMNode::Reset\<close> is missing. Contract Reset:
  "Clears hidden and cell state vectors to zero."
\<close>

definition Reset :: "('v::zero) LSTMState \<Rightarrow> 'v LSTMState" where
  "Reset node =
     node\<lparr>hiddenState := replicate (length (hiddenState node)) 0,
          cellState := replicate (length (cellState node)) 0\<rparr>"

text \<open>
  Modelled from the spec: the edge detection done by \<^verbatim>\<open>LSTMNode::Compute\<close> is missing.
  A falling edge is a transition of the reset value from non-zero at the previous call to
  zero at this one.
\<close>

definition ShouldReset :: "'v LSTMState \<Rightarrow> int \<Rightarrow> bool" where
  "ShouldReset node resetValue = (lastResetValue node \<noteq> 0 \<and> resetValue = 0)"

text \<open>
  Modelled from the spec: step 1 of Evaluate, missing with the body of \<^verbatim>\<open>Compute\<close>:
  "If a falling edge on the reset line is observed relative to the previous call, clear
  state (see Reset) before any gate math."
\<close>

definition PreStep :: "('v::zero) LSTMState \<Rightarrow> int \<Rightarrow> 'v LSTMState" where
  "PreStep node resetValue = (if ShouldReset node resetValue then Reset node else node)"

text \<open>
  Modelled from the spec: the gate arithmetic of \<^verbatim>\<open>Compute\<close> is missing. Step 2 of
  Evaluate: each gate is an affine combination of the concatenation of the current input and
  the previous hidden state with the gate's weight matrix and bias, followed by the gate's
  activation. \<open>dot\<close> is one row of the matrix product.
\<close>

definition dot :: "('v::semiring_0) list \<Rightarrow> 'v list \<Rightarrow> 'v" where
  "dot row v = sum_list (map2 (*) row v)"

text \<open>Modelled from the spec: one gate of the missing \<^verbatim>\<open>Compute\<close>, affine then nonlinear.\<close>

definition gate ::
  "('v::semiring_0) list list \<Rightarrow> 'v list \<Rightarrow> ('v \<Rightarrow> 'v) \<Rightarrow> 'v list \<Rightarrow> 'v list" where
  "gate weights bias act v = map act (map2 (+) (map (\<lambda>row. dot row v) weights) bias)"

text \<open>
  Modelled from the spec: the four gates of the missing \<^verbatim>\<open>Compute\<close>. The recurrent
  activation is used on the input, retention and output gating paths, the main activation
  on the candidate path.
\<close>

definition inputGate :: "('v::semiring_0) LSTMState \<Rightarrow> 'v list \<Rightarrow> 'v list" where
  "inputGate node v = gate (inputWeights node) (inputBias node) (recurrentActivation node) v"

text \<open>Modelled from the spec: the retention gate of the missing \<^verbatim>\<open>Compute\<close>.\<close>

definition forgetMeGate :: "('v::semiring_0) LSTMState \<Rightarrow> 'v list \<Rightarrow> 'v list" where
  "forgetMeGate node v =
     gate (forgetMeWeights node) (forgetMeBias node) (recurrentActivation node) v"

text \<open>Modelled from the spec: the candidate gate of the missing \<^verbatim>\<open>Compute\<close>.\<close>

definition candidateGate :: "('v::semiring_0) LSTMState \<Rightarrow> 'v list \<Rightarrow> 'v list" where
  "candidateGate node v = gate (candidateWeights node) (candidateBias node) (activation node) v"

text \<open>Modelled from the spec: the output gate of the missing \<^verbatim>\<open>Compute\<close>.\<close>

definition outputGate :: "('v::semiring_0) LSTMState \<Rightarrow> 'v list \<Rightarrow> 'v list" where
  "outputGate node v = gate (outputWeights node) (outputBias node) (recurrentActivation node) v"

text \<open>
  Modelled from the spec: the body of \<^verbatim>\<open>LSTMNode::Compute\<close> is missing. Contract Evaluate
  one step (inputVector, resetLineValue), steps 1 to 6: clear on a falling edge; compute
  the four gates; new cell state = retention gate * previous cell state + input gate *
  candidate gate, elementwise; new hidden state = output gate * activation (new cell state);
  the output is the new hidden state; the state is replaced by the new pair, and the reset
  value of this call becomes the previous one. Addressing through the output memory layout
  is not part of the model: the output is the logical vector.
\<close>

definition Compute ::
  "('v::semiring_0) LSTMState \<Rightarrow> 'v list \<Rightarrow> int \<Rightarrow> 'v list \<times> 'v LSTMState" where
  "Compute node x resetValue =
     (let prev = PreStep node resetValue;
          v = x @ hiddenState prev;
          it = inputGate prev v;
          ft = forgetMeGate prev v;
          gt = candidateGate prev v;
          ot = outputGate prev v;
          c = map2 (+) (map2 (*) ft (cellState prev)) (map2 (*) it gt);
          h = map2 (*) ot (map (activation prev) c)
      in (h, prev\<lparr>hiddenState := h, cellState := c, lastResetValue := resetValue\<rparr>))"

text \<open>
  A run is a sequence of evaluation steps, each with its input vector and its reset value;
  it yields the outputs in order and the node as the last step leaves it.
\<close>

fun Run ::
  "('v::semiring_0) LSTMState \<Rightarrow> ('v list \<times> int) list \<Rightarrow> 'v list list \<times> 'v LSTMState" where
  "Run node [] = ([], node)"
| "Run node ((x, r) # steps) =
     (let (out, node') = Compute node x r;
          (outs, node'') = Run node' steps
      in (out # outs, node''))"

text \<open>
  Modelled from the spec: steps 2 to 6 of Evaluate taken alone, the gate math of the missing
  \<^verbatim>\<open>Compute\<close> on a given starting state, with no edge detection and no clearing. It
  is what a step does to the state it starts from.
\<close>

definition GateMath ::
  "('v::semiring_0) LSTMState \<Rightarrow> 'v list \<Rightarrow> int \<Rightarrow> 'v list \<times> 'v LSTMState" where
  "GateMath start x resetValue =
     (let v = x @ hiddenState start;
          it = inputGate start v;
          ft = forgetMeGate start v;
          gt = candidateGate start v;
          ot = outputGate start v;
          c = map2 (+) (map2 (*) ft (cellState start)) (map2 (*) it gt);
          h = map2 (*) ot (map (activation start) c)
      in (h, start\<lparr>hiddenState := h, cellState := c, lastResetValue := resetValue\<rparr>))"

text \<open>
  A run whose clears are dictated from outside: one flag per step says whether the hidden
  and cell vectors are set to zeros before that step's gate math; a step without a flag
  does not clear. It never looks at the reset values to decide.
\<close>

fun RunClearing ::
  "bool list \<Rightarrow> ('v::semiring_0) LSTMState \<Rightarrow> ('v list \<times> int) list \<Rightarrow>
     'v list list \<times> 'v LSTMState" where
  "RunClearing flags node [] = ([], node)"
| "RunClearing [] node ((x, r) # steps) =
     (let (out, node') = GateMath node x r;
          (outs, node'') = RunClearing [] node' steps
      in (out # outs, node''))"
| "RunClearing (clear # flags) node ((x, r) # steps) =
     (let start =
            (if clear
             then node\<lparr>hiddenState := replicate (length (hiddenState node)) 0,
                       cellState := replicate (length (cellState node)) 0\<rparr>
             else node);
          (out, node') = GateMath start x r;
          (outs, node'') = RunClearing flags node' steps
      in (out # outs, node''))"

text \<open>
  The falling edges of a reset line as the spec words them, independent of the node: the
  value before the first step, then for each step whether the line went from non-zero to
  zero.
\<close>

fun fallingEdges :: "int \<Rightarrow> int list \<Rightarrow> bool list" where
  "fallingEdges previous [] = []"
| "fallingEdges previous (r # rs) = (previous \<noteq> 0 \<and> r = 0) # fallingEdges r rs"

text \<open>
  Modelled from the spec: the activation library is external. The concrete scenario uses
  the hyperbolic tangent and the logistic sigmoid, with sigmoid of 0 equal to 0.5.
\<close>

definition sigmoid :: "real \<Rightarrow> real" where
  "sigmoid x = 1 / (1 + exp (- x))"

text \<open>
  The concrete scenario of the testable properties: hidden size 2, input size 1, all
  weights and biases zero except the candidate gate's weight on the input, which is 1 for
  both units; main activation tanh, recurrent activation sigmoid. The state vectors and the
  previous reset value are parameters.
\<close>

definition scenarioNode :: "real list \<Rightarrow> real list \<Rightarrow> int \<Rightarrow> real LSTMState" where
  "scenarioNode h c previous =
     \<lparr>inputWeights = [[0, 0, 0], [0, 0, 0]],
      forgetMeWeights = [[0, 0, 0], [0, 0, 0]],
      candidateWeights = [[1, 0, 0], [1, 0, 0]],
      outputWeights = [[0, 0, 0], [0, 0, 0]],
      inputBias = [0, 0], forgetMeBias = [0, 0], candidateBias = [0, 0], outputBias = [0, 0],
      inputMemoryLayout = \<lparr>shape = [1, 1, 1], dimensionOrder = [0, 1, 2]\<rparr>,
      outputMemoryLayout = \<lparr>shape = [1, 1, 2], dimensionOrder = [0, 1, 2]\<rparr>,
      activation = tanh, recurrentActivation = sigmoid,
      hiddenState = h, cellState = c, lastResetValue = previous\<rparr>"


section \<open>Properties of the header's own functions\<close>

text \<open>
  Claim C10. The decomposition adapter reports itself as not directly compilable:
  \<open>IsCompilable\<close> is false for every adapter instance and every compiler argument.
\<close>

theorem IsCompilable_always_false: "IsCompilable node compiler = False"
  by (simp add: IsCompilable_def)

text \<open>
  Claim C9. \<open>HasState\<close> is true for every instance of the primitive node, whatever its
  configuration and whatever further members (state) it carries.
\<close>

theorem HasState_always_true: "HasState node = True"
  by (simp add: HasState_def)

text \<open>
  Claim C5. For every node and every candidate order, \<open>CanAcceptInputLayout\<close> returns a
  boolean (never an exception), the boolean is true exactly when the candidate equals the
  logical dimension order of the node's input memory layout, and the node is left as it was.
\<close>

theorem CanAcceptInputLayout_iff:
  "\<exists>b. CanAcceptInputLayout node order = (Inr b, node) \<and>
       b = (order = dimensionOrder (inputMemoryLayout node))"
  by (auto simp: CanAcceptInputLayout_def GetLogicalDimensionOrder_def GetInputMemoryLayout_def)

text \<open>
  Claim C4. Serialising or deserialising the primitive node fails, on every node and every
  archiver, with the logic exception \<open>notImplemented\<close>, which is neither a generic fault,
  nor a consistency error, nor another logic error; the node (configuration and any state
  it carries) and the archiver are unchanged.
\<close>

theorem archive_not_implemented:
  "fst (WriteToArchive node archiver) = Inl (LogicException notImplemented) \<and>
   fst (ReadFromArchive node unarchiver) = Inl (LogicException notImplemented) \<and>
   snd (WriteToArchive node archiver) = (node, archiver) \<and>
   snd (ReadFromArchive node unarchiver) = (node, unarchiver) \<and>
   LogicException notImplemented \<noteq> GenericFault \<and>
   LogicException notImplemented \<noteq> ConsistencyError \<and>
   LogicException notImplemented \<noteq> LogicException otherLogicError"
  by (simp add: WriteToArchive_def ReadFromArchive_def)

section \<open>Properties of the evaluation step\<close>

lemmas step_defs = Compute_def PreStep_def ShouldReset_def Reset_def Let_def
  inputGate_def forgetMeGate_def candidateGate_def outputGate_def gate_def dot_def

lemma sigmoid_0: "sigmoid 0 = 1 / 2"
  by (simp add: sigmoid_def)

lemma lastResetValue_Compute: "lastResetValue (snd (Compute node x r)) = r"
  by (simp add: Compute_def Let_def)

lemma Reset_Reset: "Reset (Reset node) = Reset node"
  by (simp add: Reset_def)

lemma Compute_GateMath: "Compute node x r = GateMath (PreStep node r) x r"
  by (simp add: Compute_def GateMath_def Let_def)

lemma lastResetValue_GateMath: "lastResetValue (snd (GateMath start x r)) = r"
  by (simp add: GateMath_def Let_def)

text \<open>
  The run of the node is the run that clears exactly at the falling edges of its reset
  values: by induction on the steps, the node generalised, since every step changes it.
\<close>

lemma Run_RunClearing:
  "Run node steps = RunClearing (fallingEdges (lastResetValue node) (map snd steps)) node steps"
proof (induction steps arbitrary: node)
  case Nil
  show ?case by simp
next
  case (Cons step steps)
  obtain x r where step: "step = (x, r)"
    by (cases step)
  have start: "PreStep node r =
      (if lastResetValue node \<noteq> 0 \<and> r = 0
       then node\<lparr>hiddenState := replicate (length (hiddenState node)) 0,
                 cellState := replicate (length (cellState node)) 0\<rparr>
       else node)"
    by (simp add: PreStep_def ShouldReset_def Reset_def)
  have next_node: "lastResetValue (snd (GateMath (PreStep node r) x r)) = r"
    by (rule lastResetValue_GateMath)
  have "Run node (step # steps) =
      (fst (GateMath (PreStep node r) x r) #
         fst (Run (snd (GateMath (PreStep node r) x r)) steps),
       snd (Run (snd (GateMath (PreStep node r) x r)) steps))"
    by (simp add: step Compute_GateMath case_prod_beta)
  moreover have "RunClearing (fallingEdges (lastResetValue node) (map snd (step # steps)))
        node (step # steps) =
      (fst (GateMath (PreStep node r) x r) #
         fst (RunClearing (fallingEdges r (map snd steps))
           (snd (GateMath (PreStep node r) x r)) steps),
       snd (RunClearing (fallingEdges r (map snd steps))
           (snd (GateMath (PreStep node r) x r)) steps))"
    unfolding start by (simp add: step case_prod_beta Let_def)
  ultimately show ?case
    using Cons.IH [of "snd (GateMath (PreStep node r) x r)"] next_node by simp
qed

text \<open>
  Claim C7. \<open>Reset\<close> sets the hidden vector and the cell vector to all zeros (of the
  lengths they had) and leaves the previous reset value alone; applying it twice, or any
  number of times from once on, gives the same node as applying it once.
\<close>

theorem Reset_zeroes_and_idempotent:
  "hiddenState (Reset node) = replicate (length (hiddenState node)) 0 \<and>
   cellState (Reset node) = replicate (length (cellState node)) 0 \<and>
   lastResetValue (Reset node) = lastResetValue node \<and>
   Reset (Reset node) = Reset node \<and>
   (Reset ^^ Suc k) node = Reset node"
proof -
  have "(Reset ^^ Suc k) node = Reset node"
    by (induction k) (simp_all add: Reset_Reset)
  then show ?thesis
    by (simp add: Reset_def)
qed

text \<open>
  Claim C3. An evaluation step on a falling edge (the reset value non-zero at the previous
  step, zero now) is the gate math on the state with hidden and cell vectors set to zeros;
  every other step is the gate math on the carried state itself. A step records its reset
  value as the previous one of the next step. So every run is the run that clears exactly at
  the falling edges of its reset sequence, once per edge and at most once per step. For
  the reset sequence 1, 1, 0, 0, 1, 0 the state is cleared before the gate math of steps 3
  and 6 and nowhere else, whatever the node and the inputs.
\<close>

theorem clears_exactly_on_falling_edges:
  "Compute node x r =
     GateMath
       (if lastResetValue node \<noteq> 0 \<and> r = 0
        then node\<lparr>hiddenState := replicate (length (hiddenState node)) 0,
                  cellState := replicate (length (cellState node)) 0\<rparr>
        else node) x r \<and>
   lastResetValue (snd (Compute node x r)) = r \<and>
   Run node steps =
     RunClearing (fallingEdges (lastResetValue node) (map snd steps)) node steps \<and>
   fallingEdges (lastResetValue node) [1, 1, 0, 0, 1, 0] =
     [False, False, True, False, False, True] \<and>
   Run node [(x1, 1), (x2, 1), (x3, 0), (x4, 0), (x5, 1), (x6, 0)] =
     (let (o1, n1) = GateMath node x1 1;
          (o2, n2) = GateMath n1 x2 1;
          (o3, n3) = GateMath (Reset n2) x3 0;
          (o4, n4) = GateMath n3 x4 0;
          (o5, n5) = GateMath n4 x5 1;
          (o6, n6) = GateMath (Reset n5) x6 0
      in ([o1, o2, o3, o4, o5, o6], n6))"
proof -
  have step: "Compute node x r =
     GateMath
       (if lastResetValue node \<noteq> 0 \<and> r = 0
        then node\<lparr>hiddenState := replicate (length (hiddenState node)) 0,
                  cellState := replicate (length (cellState node)) 0\<rparr>
        else node) x r"
    by (simp add: Compute_GateMath PreStep_def ShouldReset_def Reset_def)
  have edges: "fallingEdges (lastResetValue node) [1, 1, 0, 0, 1, 0] =
     [False, False, True, False, False, True]"
    by simp
  have six: "Run node [(x1, 1), (x2, 1), (x3, 0), (x4, 0), (x5, 1), (x6, 0)] =
     (let (o1, n1) = GateMath node x1 1;
          (o2, n2) = GateMath n1 x2 1;
          (o3, n3) = GateMath (Reset n2) x3 0;
          (o4, n4) = GateMath n3 x4 0;
          (o5, n5) = GateMath n4 x5 1;
          (o6, n6) = GateMath (Reset n5) x6 0
      in ([o1, o2, o3, o4, o5, o6], n6))"
    by (simp add: Compute_GateMath PreStep_def ShouldReset_def lastResetValue_GateMath
        case_prod_beta)
  from step lastResetValue_Compute [of node x r] Run_RunClearing [of node steps] edges six
  show ?thesis
    by blast
qed

subsection \<open>The concrete scenario\<close>

lemma Reset_scenarioNode:
  "Reset (scenarioNode [b1, b2] [a1, a2] p) = scenarioNode [0, 0] [0, 0] p"
  by (simp add: Reset_def scenarioNode_def)


text \<open>
  One step of the scenario with input 1 and reset value 1, from equal cell values \<open>a\<close>:
  the gates are 1/2, 1/2, tanh 1 and 1/2, whatever the hidden state.
\<close>

lemma scenario_step:
  "Compute (scenarioNode [b1, b2] [a, a] p) [1] 1 =
     ([1 / 2 * tanh (1 / 2 * a + 1 / 2 * tanh 1), 1 / 2 * tanh (1 / 2 * a + 1 / 2 * tanh 1)],
      scenarioNode
        [1 / 2 * tanh (1 / 2 * a + 1 / 2 * tanh 1), 1 / 2 * tanh (1 / 2 * a + 1 / 2 * tanh 1)]
        [1 / 2 * a + 1 / 2 * tanh 1, 1 / 2 * a + 1 / 2 * tanh 1] 1)"
  by (simp add: step_defs scenarioNode_def sigmoid_0)

lemma scenario_gates:
  "inputGate (scenarioNode [0, 0] [0, 0] p) [1, 0, 0] = [1 / 2, 1 / 2] \<and>
   forgetMeGate (scenarioNode [0, 0] [0, 0] p) [1, 0, 0] = [1 / 2, 1 / 2] \<and>
   candidateGate (scenarioNode [0, 0] [0, 0] p) [1, 0, 0] = [tanh 1, tanh 1] \<and>
   outputGate (scenarioNode [0, 0] [0, 0] p) [1, 0, 0] = [1 / 2, 1 / 2]"
  by (simp add: inputGate_def forgetMeGate_def candidateGate_def outputGate_def gate_def
      dot_def scenarioNode_def sigmoid_0)








text \<open>
  Claim C2. In every evaluation step, with the state as the pre-step reset leaves it and
  the gates taken on the input concatenated with that hidden state: the new cell state is
  retention gate * previous cell state + input gate * candidate gate, elementwise; the new
  hidden state is output gate * activation (new cell state); and the output is the new
  hidden state. In the concrete scenario, a first step with input 1 after a reset has
  retention and input gate 1/2, candidate gate tanh 1, cell state 1/2 * tanh 1 and output
  1/2 * tanh (1/2 * tanh 1) in both units: the reference values exactly, over the reals.
\<close>

theorem Compute_state_update:
  "cellState (snd (Compute node x r)) =
     map2 (+)
       (map2 (*) (forgetMeGate (PreStep node r) (x @ hiddenState (PreStep node r)))
          (cellState (PreStep node r)))
       (map2 (*) (inputGate (PreStep node r) (x @ hiddenState (PreStep node r)))
          (candidateGate (PreStep node r) (x @ hiddenState (PreStep node r)))) \<and>
   hiddenState (snd (Compute node x r)) =
     map2 (*) (outputGate (PreStep node r) (x @ hiddenState (PreStep node r)))
       (map (activation node) (cellState (snd (Compute node x r)))) \<and>
   fst (Compute node x r) = hiddenState (snd (Compute node x r)) \<and>
   forgetMeGate (Reset (scenarioNode [h1, h2] [c1, c2] p))
     ([1] @ hiddenState (Reset (scenarioNode [h1, h2] [c1, c2] p))) = [1 / 2, 1 / 2] \<and>
   inputGate (Reset (scenarioNode [h1, h2] [c1, c2] p))
     ([1] @ hiddenState (Reset (scenarioNode [h1, h2] [c1, c2] p))) = [1 / 2, 1 / 2] \<and>
   candidateGate (Reset (scenarioNode [h1, h2] [c1, c2] p))
     ([1] @ hiddenState (Reset (scenarioNode [h1, h2] [c1, c2] p))) = [tanh 1, tanh 1] \<and>
   cellState (snd (Compute (Reset (scenarioNode [h1, h2] [c1, c2] p)) [1] 1)) =
     [1 / 2 * tanh 1, 1 / 2 * tanh 1] \<and>
   fst (Compute (Reset (scenarioNode [h1, h2] [c1, c2] p)) [1] 1) =
     [1 / 2 * tanh (1 / 2 * tanh 1), 1 / 2 * tanh (1 / 2 * tanh 1)]"
proof -
  have act: "activation (PreStep node r) = activation node"
    by (simp add: PreStep_def Reset_def)
  have general:
    "cellState (snd (Compute node x r)) =
       map2 (+)
         (map2 (*) (forgetMeGate (PreStep node r) (x @ hiddenState (PreStep node r)))
            (cellState (PreStep node r)))
         (map2 (*) (inputGate (PreStep node r) (x @ hiddenState (PreStep node r)))
            (candidateGate (PreStep node r) (x @ hiddenState (PreStep node r))))"
    "hiddenState (snd (Compute node x r)) =
       map2 (*) (outputGate (PreStep node r) (x @ hiddenState (PreStep node r)))
         (map (activation node) (cellState (snd (Compute node x r))))"
    "fst (Compute node x r) = hiddenState (snd (Compute node x r))"
    using act by (simp_all add: Compute_def Let_def)
  have hid: "hiddenState (scenarioNode [0, 0] [0, 0] p) = [0, 0]"
    by (simp add: scenarioNode_def)
  have gates:
    "forgetMeGate (Reset (scenarioNode [h1, h2] [c1, c2] p))
       ([1] @ hiddenState (Reset (scenarioNode [h1, h2] [c1, c2] p))) = [1 / 2, 1 / 2]"
    "inputGate (Reset (scenarioNode [h1, h2] [c1, c2] p))
       ([1] @ hiddenState (Reset (scenarioNode [h1, h2] [c1, c2] p))) = [1 / 2, 1 / 2]"
    "candidateGate (Reset (scenarioNode [h1, h2] [c1, c2] p))
       ([1] @ hiddenState (Reset (scenarioNode [h1, h2] [c1, c2] p))) = [tanh 1, tanh 1]"
    using scenario_gates [of p] by (simp_all add: Reset_scenarioNode hid)
  have cell: "cellState (scenarioNode hs [1 / 2 * tanh 1, 1 / 2 * tanh 1] 1) =
      [1 / 2 * tanh 1, 1 / 2 * tanh 1]" for hs
    by (simp add: scenarioNode_def)
  have first:
    "cellState (snd (Compute (Reset (scenarioNode [h1, h2] [c1, c2] p)) [1] 1)) =
       [1 / 2 * tanh 1, 1 / 2 * tanh 1]"
    "fst (Compute (Reset (scenarioNode [h1, h2] [c1, c2] p)) [1] 1) =
       [1 / 2 * tanh (1 / 2 * tanh 1), 1 / 2 * tanh (1 / 2 * tanh 1)]"
    using scenario_step [of 0 0 0 p] cell by (simp_all add: Reset_scenarioNode)
  from general gates first show ?thesis
    by blast
qed

subsection \<open>Influence of the carried state\<close>




end
